theory Spec2Isabelle
  imports Complex_Main "HOL-Library.Sublist" "HOL-Library.Log_Nat"
begin

section \<open>Errors and the table registry\<close>

text \<open>
  A thrown \<^verbatim>\<open>new Error(message)\<close> is a value carrying its message (\<open>Error\<close>); an
  error of another class, as the ORM and the database driver throw them, carries its
  name too (\<open>NamedError\<close>). An async function that may throw returns \<open>error + 'a\<close>, with
  \<open>Inl\<close> for the rejection. Strings are lists of 8-bit code units; text with code units
  above 255 is outside the model.
\<close>

datatype error = Error string | NamedError string string

fun message :: "error \<Rightarrow> string" where
  "message (Error m) = m"
| "message (NamedError n m) = m"

fun error_name :: "error \<Rightarrow> string" where
  "error_name (Error m) = ''Error''"
| "error_name (NamedError n m) = n"

text \<open>\<^verbatim>\<open>String(error)\<close>, as \<^verbatim>\<open>new Error(error)\<close> computes it for its message.\<close>

definition toString :: "error \<Rightarrow> string" where
  "toString e = (if message e = [] then error_name e else error_name e @ '': '' @ message e)"

text \<open>
  \<^verbatim>\<open>TableInitializer\<close> (db.initializer.ts): the static registry from table name
  to ORM model. A model stands for its table, so the registry maps a name to the rows the
  table holds, in insertion order of the \<^verbatim>\<open>Map\<close>.
\<close>

record 'r TableInitializer =
  initialized :: bool
  models :: "(string \<times> 'r list) list"

fun join :: "string \<Rightarrow> string list \<Rightarrow> string" where
  "join sep [] = []"
| "join sep [x] = x"
| "join sep (x # y # ys) = x @ sep @ join sep (y # ys)"

definition getModel :: "'r TableInitializer \<Rightarrow> string \<Rightarrow> error + 'r list" where
  "getModel ti tableName =
     (if \<not> initialized ti then
        Inl (Error (''TableInitializer non initialis'' @ [char_of (233::nat)]
                    @ ''. Appelez initialize() d'' @ [char_of (39::nat)] @ ''abord.''))
      else case map_of (models ti) tableName of
        None \<Rightarrow>
          Inl (Error (''Mod'' @ [char_of (232::nat)] @ ''le '' @ [char_of (39::nat)] @ tableName
                      @ [char_of (39::nat)] @ '' non trouv'' @ [char_of (233::nat)]
                      @ ''. Disponibles: '' @ join '', '' (map fst (models ti))))
      | Some model \<Rightarrow> Inr model)"

section \<open>BaseModel: GUID generation\<close>

text \<open>
  \<^verbatim>\<open>model.max('id')\<close> is SQL \<^verbatim>\<open>MAX(id)\<close>: \<^verbatim>\<open>null\<close> on an empty
  table. Primary keys are auto-incremented integers, hence naturals.
\<close>

definition max_col :: "('r \<Rightarrow> nat) \<Rightarrow> 'r list \<Rightarrow> nat option" where
  "max_col col rows = (case map col rows of [] \<Rightarrow> None | x # xs \<Rightarrow> Some (fold max xs x))"

text \<open>
  \<^verbatim>\<open>BaseModel.guidGenerator(tableName, length = 6)\<close>. Everything thrown inside
  the \<^verbatim>\<open>try\<close> (here: by \<^verbatim>\<open>getModel\<close>) is caught and turned into
  \<^verbatim>\<open>null\<close>; \<^verbatim>\<open>getModel\<close> never returns a falsy model, so the
  \<^verbatim>\<open>!model\<close> branch is the same \<^verbatim>\<open>null\<close>.
  \<^verbatim>\<open>(await model.max('id')) || 0\<close> replaces \<^verbatim>\<open>null\<close> (and 0) by 0.
\<close>

definition guidGenerator ::
  "'r TableInitializer \<Rightarrow> ('r \<Rightarrow> nat) \<Rightarrow> string \<Rightarrow> int \<Rightarrow> nat option" where
  "guidGenerator ti pk tableName len =
     (case getModel ti tableName of
        Inl e \<Rightarrow> None
      | Inr model \<Rightarrow>
          if len < 3 then None
          else
            let offset = 10 ^ nat (len - 1);
                maxId = (case max_col pk model of None \<Rightarrow> 0 | Some m \<Rightarrow> m);
                nextId = maxId + 1;
                guid = offset + nextId
            in Some guid)"

section \<open>Pagination\<close>

text \<open>
  \<^verbatim>\<open>parseInt(s, 10)\<close>: leading white space is skipped, an optional sign is read,
  then the longest run of decimal digits; no digit gives \<^verbatim>\<open>NaN\<close> (\<open>None\<close>).
  The value is the mathematical integer (JavaScript rounds it to a double beyond
  \<open>2^53\<close>, which no comparison below distinguishes).
\<close>

definition isWhiteSpace :: "char \<Rightarrow> bool" where
  "isWhiteSpace c = ((of_char c :: nat) \<in> {9, 10, 11, 12, 13, 32, 160})"

definition isDigit :: "char \<Rightarrow> bool" where
  "isDigit c = (48 \<le> (of_char c :: nat) \<and> (of_char c :: nat) \<le> 57)"

definition digitsValue :: "string \<Rightarrow> nat" where
  "digitsValue ds = fold (\<lambda>c acc. 10 * acc + (of_char c - 48)) ds 0"

definition parseInt :: "string \<Rightarrow> int option" where
  "parseInt s =
     (let t = dropWhile isWhiteSpace s;
          neg = (case t of [] \<Rightarrow> False | c # r \<Rightarrow> c = CHR ''-'');
          u = (case t of [] \<Rightarrow> [] | c # r \<Rightarrow> if c = CHR ''-'' \<or> c = CHR ''+'' then r else t);
          ds = takeWhile isDigit u
      in if ds = [] then None
         else Some (if neg then - int (digitsValue ds) else int (digitsValue ds)))"

text \<open>The part of \<^verbatim>\<open>req.query\<close> that is read: absent parameters are \<open>None\<close>.\<close>

record query =
  q_offset :: "string option"
  q_limit :: "string option"

record pagination =
  p_offset :: "int option"
  p_limit :: "int option"

text \<open>\<^verbatim>\<open>ExtractQueryParams.extractPaginationFromQuery\<close> (extract.query.params.ts).\<close>

definition extractPaginationFromQuery :: "'a query_scheme \<Rightarrow> pagination" where
  "extractPaginationFromQuery q =
     \<lparr> p_offset =
         (case q_offset q of
            None \<Rightarrow> None
          | Some s \<Rightarrow>
              (case parseInt s of
                 None \<Rightarrow> None
               | Some offset \<Rightarrow> if offset \<ge> 0 then Some offset else None)),
       p_limit =
         (case q_limit q of
            None \<Rightarrow> None
          | Some s \<Rightarrow>
              (case parseInt s of
                 None \<Rightarrow> None
               | Some limit \<Rightarrow> if limit > 0 \<and> limit \<le> 1000 then Some limit else None)) \<rparr>"

text \<open>
  The ORM query \<^verbatim>\<open>model.findAll({ where, offset, limit })\<close>: the rows that satisfy
  \<^verbatim>\<open>where\<close>, then SQL \<^verbatim>\<open>OFFSET\<close> and \<^verbatim>\<open>LIMIT\<close> where given.
\<close>

definition sequelize_findAll ::
  "'r list \<Rightarrow> ('r \<Rightarrow> bool) \<Rightarrow> int option \<Rightarrow> int option \<Rightarrow> 'r list" where
  "sequelize_findAll rows wh qoffset qlimit =
     (let matching = filter wh rows;
          skipped = (case qoffset of None \<Rightarrow> matching | Some n \<Rightarrow> drop (nat n) matching)
      in case qlimit of None \<Rightarrow> skipped | Some n \<Rightarrow> take (nat n) skipped)"

text \<open>\<^verbatim>\<open>BaseModel.findAll(tableName, where, paginationOptions)\<close> (db.base.ts).\<close>

definition findAll ::
  "'r TableInitializer \<Rightarrow> string \<Rightarrow> ('r \<Rightarrow> bool) \<Rightarrow> pagination \<Rightarrow> error + 'r list" where
  "findAll ti tableName wh paginationOptions =
     (case getModel ti tableName of
        Inl e \<Rightarrow> Inl e
      | Inr model \<Rightarrow>
          let qoffset = (case p_offset paginationOptions of
                           None \<Rightarrow> None
                         | Some n \<Rightarrow> if n \<ge> 0 then Some n else None);
              qlimit = (case p_limit paginationOptions of
                          None \<Rightarrow> None
                        | Some n \<Rightarrow> if n > 0 then Some n else None)
          in Inr (sequelize_findAll model wh qoffset qlimit))"

section \<open>Strings, numbers as text, regular expressions\<close>

text \<open>
  The string methods the sources call. The model covers ASCII text, where
  \<^verbatim>\<open>toUpperCase\<close> changes exactly the letters a to z; \<^verbatim>\<open>trim\<close> removes the
  white space of \<open>isWhiteSpace\<close> at both ends.
\<close>

definition trim :: "string \<Rightarrow> string" where
  "trim s = rev (dropWhile isWhiteSpace (rev (dropWhile isWhiteSpace s)))"

definition upperChar :: "char \<Rightarrow> char" where
  "upperChar c =
     (if 97 \<le> (of_char c :: nat) \<and> (of_char c :: nat) \<le> 122
      then char_of ((of_char c :: nat) - 32) else c)"

definition toUpperCase :: "string \<Rightarrow> string" where
  "toUpperCase s = map upperChar s"

text \<open>\<^verbatim>\<open>s.includes(sub)\<close>: \<open>sub\<close> occurs in \<open>s\<close> as a contiguous run.\<close>

fun str_includes :: "string \<Rightarrow> string \<Rightarrow> bool" where
  "str_includes [] sub = (sub = [])"
| "str_includes (c # cs) sub = (prefix sub (c # cs) \<or> str_includes cs sub)"

text \<open>\<^verbatim>\<open>String(n)\<close> of an integer: its decimal digits, with a minus sign below zero.\<close>

definition digitChar :: "nat \<Rightarrow> char" where
  "digitChar d = char_of (48 + d)"

fun string_of_nat :: "nat \<Rightarrow> string" where
  "string_of_nat n =
     (if n < 10 then [digitChar n] else string_of_nat (n div 10) @ [digitChar (n mod 10)])"

declare string_of_nat.simps [simp del]

definition string_of_int :: "int \<Rightarrow> string" where
  "string_of_int i = (if i < 0 then CHR ''-'' # string_of_nat (nat (- i)) else string_of_nat (nat i))"

text \<open>\<^verbatim>\<open>s.padStart(n, '0')\<close>.\<close>

definition padStart0 :: "nat \<Rightarrow> string \<Rightarrow> string" where
  "padStart0 n s = replicate (n - length s) (CHR ''0'') @ s"

text \<open>
  Regular expressions as data, matched against the whole input (every expression of the
  sources used here is anchored by \<^verbatim>\<open>^\<close> and \<^verbatim>\<open>$\<close>), by derivatives.
\<close>

datatype rexp =
  Never
  | Empty
  | Class "char \<Rightarrow> bool"
  | Alt rexp rexp
  | Seq rexp rexp
  | Star rexp

fun nullable :: "rexp \<Rightarrow> bool" where
  "nullable Never = False"
| "nullable Empty = True"
| "nullable (Class p) = False"
| "nullable (Alt r s) = (nullable r \<or> nullable s)"
| "nullable (Seq r s) = (nullable r \<and> nullable s)"
| "nullable (Star r) = True"

fun deriv :: "char \<Rightarrow> rexp \<Rightarrow> rexp" where
  "deriv c Never = Never"
| "deriv c Empty = Never"
| "deriv c (Class p) = (if p c then Empty else Never)"
| "deriv c (Alt r s) = Alt (deriv c r) (deriv c s)"
| "deriv c (Seq r s) =
     (if nullable r then Alt (Seq (deriv c r) s) (deriv c s) else Seq (deriv c r) s)"
| "deriv c (Star r) = Seq (deriv c r) (Star r)"

fun test :: "rexp \<Rightarrow> string \<Rightarrow> bool" where
  "test r [] = nullable r"
| "test r (c # cs) = test (deriv c r) cs"

definition Plus :: "rexp \<Rightarrow> rexp" where
  "Plus r = Seq r (Star r)"

definition Opt :: "rexp \<Rightarrow> rexp" where
  "Opt r = Alt r Empty"

fun Lit :: "string \<Rightarrow> rexp" where
  "Lit [] = Empty"
| "Lit (c # cs) = Seq (Class (\<lambda>x. x = c)) (Lit cs)"

fun Times :: "nat \<Rightarrow> rexp \<Rightarrow> rexp" where
  "Times 0 r = Empty"
| "Times (Suc n) r = Seq r (Times n r)"

definition isUpper :: "char \<Rightarrow> bool" where
  "isUpper c = (65 \<le> (of_char c :: nat) \<and> (of_char c :: nat) \<le> 90)"

definition isLower :: "char \<Rightarrow> bool" where
  "isLower c = (97 \<le> (of_char c :: nat) \<and> (of_char c :: nat) \<le> 122)"



section \<open>HTTP responses\<close>

text \<open>
  A JSON document; an object keeps its properties in order. \<^verbatim>\<open>res.json\<close> leaves out
  properties whose value is \<^verbatim>\<open>undefined\<close>, which \<open>props\<close> does for \<open>None\<close>.
\<close>

datatype json =
  JNull
  | JBool bool
  | JNum int
  | JStr string
  | JArr "json list"
  | JObj "(string \<times> json) list"

definition props :: "(string \<times> json option) list \<Rightarrow> json" where
  "props ps = JObj (List.map_filter (\<lambda>(k, v). map_option (\<lambda>j. (k, j)) v) ps)"

text \<open>What the handler sent: the status and the JSON body (\<open>None\<close> when there is no body).\<close>

record response =
  status :: nat
  body :: "json option"

text \<open>\<^verbatim>\<open>HttpStatus\<close> (tools/http-status.ts), the codes the routes use.\<close>

definition SUCCESS :: nat where "SUCCESS = 200"
definition CREATED :: nat where "CREATED = 201"
definition NO_CONTENT :: nat where "NO_CONTENT = 204"
definition BAD_REQUEST :: nat where "BAD_REQUEST = 400"
definition NOT_FOUND :: nat where "NOT_FOUND = 404"
definition CONFLICT :: nat where "CONFLICT = 409"
definition INTERNAL_ERROR :: nat where "INTERNAL_ERROR = 500"

text \<open>
  \<^verbatim>\<open>R\<close> (tools/response.ts). \<open>now\<close> is \<^verbatim>\<open>new Date().toISOString()\<close> at the time
  of the call.
\<close>

definition handleSuccess :: "json \<Rightarrow> nat \<Rightarrow> response" where
  "handleSuccess structure httpCode =
     \<lparr>status = httpCode, body = Some (JObj [(''success'', JBool True), (''data'', structure)])\<rparr>"

definition handleCreated :: "json \<Rightarrow> response" where
  "handleCreated structure = handleSuccess structure CREATED"

definition handleError :: "string \<Rightarrow> nat \<Rightarrow> json \<Rightarrow> response" where
  "handleError now httpCode err =
     \<lparr>status = httpCode,
      body = Some (JObj [(''success'', JBool False), (''error'', err), (''timestamp'', JStr now)])\<rparr>"

definition handleNoContent :: response where
  "handleNoContent = \<lparr>status = NO_CONTENT, body = None\<rparr>"

text \<open>The error bodies of the routes: \<^verbatim>\<open>{ code, message }\<close>.\<close>

definition code_message :: "string \<Rightarrow> string \<Rightarrow> json" where
  "code_message c m = JObj [(''code'', JStr c), (''message'', JStr m)]"

section \<open>Country: schema and validation\<close>

text \<open>
  A property of a JavaScript object that may be \<^verbatim>\<open>undefined\<close>, \<^verbatim>\<open>null\<close> or hold
  a value.
\<close>

datatype 'a field = Undefined | Null | Value 'a

text \<open>
  A row of table \<^verbatim>\<open>xf_country\<close> with the columns \<^verbatim>\<open>CountryDbStructure.attributes\<close>
  declares (database/data/country.db.ts); the last three are nullable. The timestamp
  columns that the ORM maintains by itself are not part of the row.
\<close>

record country_row =
  col_id :: nat
  col_guid :: nat
  col_code :: int
  col_iso :: string
  col_name :: string
  col_timezone :: "string option"
  col_mobileRegex :: "string option"
  col_flag :: "string option"

text \<open>\<^verbatim>\<open>CountryDbStructure.validation\<close>. A code is an integer here, so
  \<^verbatim>\<open>Number.isInteger(code)\<close> holds.\<close>

definition validateCode :: "int \<Rightarrow> bool" where
  "validateCode code = (code > 0 \<and> code \<le> 999)"

definition isoRegex :: rexp where
  "isoRegex = Times 2 (Class isUpper)"

definition validateIso :: "string \<Rightarrow> bool" where
  "validateIso isoText = (let trimmed = toUpperCase (trim isoText) in test isoRegex trimmed)"

definition validateName :: "string \<Rightarrow> bool" where
  "validateName name = (let trimmed = trim name in length trimmed \<ge> 2 \<and> length trimmed \<le> 128)"

text \<open>\<^verbatim>\<open>/^([A-Z][a-z]+\/[A-Za-z_]+|UTC[+-]\d{1,2}(:\d{2})?|UTC)$/\<close>\<close>

definition timezoneRegex :: rexp where
  "timezoneRegex =
     Alt (Seq (Class isUpper) (Seq (Plus (Class isLower)) (Seq (Lit ''/'')
            (Plus (Class (\<lambda>c. isUpper c \<or> isLower c \<or> c = CHR ''_''))))))
      (Alt (Seq (Lit ''UTC'') (Seq (Class (\<lambda>c. c = CHR ''+'' \<or> c = CHR ''-''))
              (Seq (Class isDigit) (Seq (Opt (Class isDigit))
                 (Opt (Seq (Lit '':'') (Times 2 (Class isDigit))))))))
           (Lit ''UTC''))"

definition validateTimezone :: "string \<Rightarrow> bool" where
  "validateTimezone timezone = (let trimmed = trim timezone in test timezoneRegex trimmed)"

text \<open>\<^verbatim>\<open>/^[a-zA-Z][a-zA-Z0-9_]*$/\<close>\<close>

definition regexRefPattern :: rexp where
  "regexRefPattern =
     Seq (Class (\<lambda>c. isLower c \<or> isUpper c))
         (Star (Class (\<lambda>c. isLower c \<or> isUpper c \<or> isDigit c \<or> c = CHR ''_'')))"

definition validateMobileRegex :: "string \<Rightarrow> bool" where
  "validateMobileRegex mobileRegex = (let trimmed = trim mobileRegex in test regexRefPattern trimmed)"

definition validateFlag :: "string \<Rightarrow> bool" where
  "validateFlag flag = (let trimmed = trim flag in length trimmed \<ge> 1 \<and> length trimmed \<le> 10)"

text \<open>
  The fields of a \<^verbatim>\<open>CountryModel\<close> instance (model/CountryModel.ts). \<^verbatim>\<open>id\<close>,
  \<^verbatim>\<open>guid\<close> and \<^verbatim>\<open>code\<close> are numbers or \<^verbatim>\<open>undefined\<close> (\<open>None\<close>).
\<close>

record Country =
  c_id :: "nat option"
  c_guid :: "nat option"
  c_code :: "int option"
  c_iso :: "string field"
  c_name :: "string field"
  c_timezone :: "string field"
  c_mobileRegex :: "string field"
  c_flag :: "string field"

text \<open>\<^verbatim>\<open>if (data.x) { data.x = f(data.x) }\<close>: only a non-empty string is truthy.\<close>

definition clean :: "(string \<Rightarrow> string) \<Rightarrow> string field \<Rightarrow> string field" where
  "clean f x = (case x of Value s \<Rightarrow> if s = [] then x else Value (f s) | _ \<Rightarrow> x)"

definition cleanData :: "Country \<Rightarrow> Country" where
  "cleanData data =
     data\<lparr> c_iso := clean (\<lambda>s. toUpperCase (trim s)) (c_iso data),
           c_name := clean trim (c_name data),
           c_timezone := clean trim (c_timezone data),
           c_mobileRegex := clean trim (c_mobileRegex data),
           c_flag := clean trim (c_flag data) \<rparr>"

text \<open>\<^verbatim>\<open>!x || !valid(x)\<close> for a required string, \<^verbatim>\<open>x && !valid(x)\<close> for an optional one.\<close>

definition invalid_required :: "(string \<Rightarrow> bool) \<Rightarrow> string field \<Rightarrow> bool" where
  "invalid_required valid x = (case x of Value s \<Rightarrow> s = [] \<or> \<not> valid s | _ \<Rightarrow> True)"

definition invalid_optional :: "(string \<Rightarrow> bool) \<Rightarrow> string field \<Rightarrow> bool" where
  "invalid_optional valid x = (case x of Value s \<Rightarrow> s \<noteq> [] \<and> \<not> valid s | _ \<Rightarrow> False)"

text \<open>\<^verbatim>\<open>CountryModel.validate\<close>: throws, or cleans the instance in place.\<close>

definition validate :: "Country \<Rightarrow> error + Country" where
  "validate this =
     (if (case c_code this of None \<Rightarrow> True | Some code \<Rightarrow> \<not> validateCode code) then
        Inl (Error ''Country code must be a positive integer between 1 and 999'')
      else if invalid_required validateIso (c_iso this) then
        Inl (Error ''Country ISO must be exactly 2 uppercase letters (ISO 3166-1 alpha-2)'')
      else if invalid_required validateName (c_name this) then
        Inl (Error ''Country name must be between 2 and 128 characters'')
      else if invalid_optional validateTimezone (c_timezone this) then
        Inl (Error (''Invalid timezone format. Use Continent/City or UTC'' @ [char_of (177::nat)]
                    @ ''offset format''))
      else if invalid_optional validateMobileRegex (c_mobileRegex this) then
        Inl (Error ''Mobile regex reference must be a valid identifier (camelCase or UPPER_CASE)'')
      else if invalid_optional validateFlag (c_flag this) then
        Inl (Error ''Flag must be a valid emoji (1-10 characters)'')
      else Inr (cleanData this))"

section \<open>The country table behind the ORM\<close>

text \<open>
  The database as the country model sees it: the registered tables and the sequence that
  numbers the primary key of \<^verbatim>\<open>xf_country\<close>.
\<close>

record country_db =
  tables :: "country_row TableInitializer"
  serial :: nat

text \<open>The data object handed to \<^verbatim>\<open>model.create\<close> or \<^verbatim>\<open>model.update\<close>; an absent
  key and an \<^verbatim>\<open>undefined\<close> value are the same to the ORM.\<close>

record country_data =
  d_guid :: "nat option"
  d_code :: "int option"
  d_iso :: "string field"
  d_name :: "string field"
  d_timezone :: "string field"
  d_mobileRegex :: "string field"
  d_flag :: "string field"

definition set_model :: "'r TableInitializer \<Rightarrow> string \<Rightarrow> 'r list \<Rightarrow> 'r TableInitializer" where
  "set_model ti tableName rows =
     ti\<lparr>models := map (\<lambda>(k, v). if k = tableName then (k, rows) else (k, v)) (models ti)\<rparr>"

text \<open>
  What the database enforces on a stored row: the sizes of the \<^verbatim>\<open>STRING(n)\<close> columns
  and the primary key and \<^verbatim>\<open>unique\<close> constraints, the latter with the messages the
  schema gives them. The error values stand for what the driver throws.
\<close>

definition too_long :: "country_row \<Rightarrow> nat option" where
  "too_long r =
     (if length (col_iso r) > 2 then Some 2
      else if length (col_name r) > 128 then Some 128
      else if (case col_timezone r of None \<Rightarrow> False | Some s \<Rightarrow> length s > 64) then Some 64
      else if (case col_mobileRegex r of None \<Rightarrow> False | Some s \<Rightarrow> length s > 50) then Some 50
      else if (case col_flag r of None \<Rightarrow> False | Some s \<Rightarrow> length s > 10) then Some 10
      else None)"

definition constraint_error :: "country_row list \<Rightarrow> country_row list \<Rightarrow> error option" where
  "constraint_error written rows =
     (case List.map_filter too_long written of
        n # ns \<Rightarrow> Some (NamedError ''SequelizeDatabaseError''
                    (''value too long for type character varying('' @ string_of_nat n @ '')''))
      | [] \<Rightarrow>
          if \<not> distinct (map col_id rows) then
            Some (NamedError ''SequelizeUniqueConstraintError'' ''Validation error'')
          else if \<not> distinct (map col_guid rows) then
            Some (NamedError ''SequelizeUniqueConstraintError'' ''GUID must be unique'')
          else if \<not> distinct (map col_code rows) then
            Some (NamedError ''SequelizeUniqueConstraintError'' ''CODE must be unique'')
          else if \<not> distinct (map col_iso rows) then
            Some (NamedError ''SequelizeUniqueConstraintError'' ''ISO must be unique'')
          else None)"

definition notNull_error :: error where
  "notNull_error = NamedError ''SequelizeValidationError'' ''notNull Violation''"

definition nullable_of :: "'a field \<Rightarrow> 'a option" where
  "nullable_of x = (case x of Value v \<Rightarrow> Some v | _ \<Rightarrow> None)"

text \<open>\<^verbatim>\<open>BaseModel.findOne\<close>: the first row that satisfies \<^verbatim>\<open>where\<close>, or
  \<^verbatim>\<open>null\<close>.\<close>

definition findOne :: "'r TableInitializer \<Rightarrow> string \<Rightarrow> ('r \<Rightarrow> bool) \<Rightarrow> error + 'r option" where
  "findOne ti tableName wh =
     (case getModel ti tableName of Inl e \<Rightarrow> Inl e | Inr model \<Rightarrow> Inr (List.find wh model))"

text \<open>
  \<^verbatim>\<open>BaseModel.insertOne\<close> on the country table: \<^verbatim>\<open>model.create(data)\<close> refuses a
  missing value of a \<^verbatim>\<open>allowNull: false\<close> column, otherwise the row takes the next
  number of the sequence (spent even when the insert fails) and is stored unless a
  constraint is violated. The result is \<^verbatim>\<open>result.get()\<close>, the stored row.
\<close>

definition insertOne ::
  "country_db \<Rightarrow> string \<Rightarrow> country_data \<Rightarrow> (error + country_row) \<times> country_db" where
  "insertOne db tableName d =
     (case getModel (tables db) tableName of
        Inl e \<Rightarrow> (Inl e, db)
      | Inr model \<Rightarrow>
          (case (d_guid d, d_code d, d_iso d, d_name d) of
             (Some g, Some c, Value i, Value n) \<Rightarrow>
               let row = \<lparr>col_id = serial db + 1, col_guid = g, col_code = c, col_iso = i,
                          col_name = n, col_timezone = nullable_of (d_timezone d),
                          col_mobileRegex = nullable_of (d_mobileRegex d),
                          col_flag = nullable_of (d_flag d)\<rparr>;
                   db1 = db\<lparr>serial := serial db + 1\<rparr>
               in (case constraint_error [row] (model @ [row]) of
                     Some e \<Rightarrow> (Inl e, db1)
                   | None \<Rightarrow>
                       (Inr row, db1\<lparr>tables := set_model (tables db) tableName (model @ [row])\<rparr>))
           | _ \<Rightarrow> (Inl notNull_error, db)))"

text \<open>
  \<^verbatim>\<open>BaseModel.updateOne\<close> on the country table with \<^verbatim>\<open>where = { id }\<close>:
  \<^verbatim>\<open>model.update(data, { where })\<close> writes the keys of \<open>data\<close> into every matching
  row and resolves to the number of rows matched.
\<close>

definition apply_data :: "country_data \<Rightarrow> country_row \<Rightarrow> country_row" where
  "apply_data d r =
     r\<lparr> col_guid := (case d_guid d of None \<Rightarrow> col_guid r | Some g \<Rightarrow> g),
         col_code := (case d_code d of None \<Rightarrow> col_code r | Some c \<Rightarrow> c),
         col_iso := (case d_iso d of Value s \<Rightarrow> s | _ \<Rightarrow> col_iso r),
         col_name := (case d_name d of Value s \<Rightarrow> s | _ \<Rightarrow> col_name r),
         col_timezone :=
           (case d_timezone d of Undefined \<Rightarrow> col_timezone r | Null \<Rightarrow> None | Value s \<Rightarrow> Some s),
         col_mobileRegex :=
           (case d_mobileRegex d of
              Undefined \<Rightarrow> col_mobileRegex r | Null \<Rightarrow> None | Value s \<Rightarrow> Some s),
         col_flag :=
           (case d_flag d of Undefined \<Rightarrow> col_flag r | Null \<Rightarrow> None | Value s \<Rightarrow> Some s) \<rparr>"

definition updateOne ::
  "country_db \<Rightarrow> string \<Rightarrow> country_data \<Rightarrow> nat \<Rightarrow> (error + nat) \<times> country_db" where
  "updateOne db tableName d wh_id =
     (case getModel (tables db) tableName of
        Inl e \<Rightarrow> (Inl e, db)
      | Inr model \<Rightarrow>
          if d_iso d = Null \<or> d_name d = Null then (Inl notNull_error, db)
          else
            let matched = filter (\<lambda>r. col_id r = wh_id) model;
                updated = map (\<lambda>r. if col_id r = wh_id then apply_data d r else r) model
            in if matched = [] then (Inr 0, db)
               else (case constraint_error (map (apply_data d) matched) updated of
                       Some e \<Rightarrow> (Inl e, db)
                     | None \<Rightarrow>
                         (Inr (length matched),
                          db\<lparr>tables := set_model (tables db) tableName updated\<rparr>)))"

text \<open>\<^verbatim>\<open>BaseModel.deleteOne\<close> with \<^verbatim>\<open>where = { id }\<close>.\<close>

definition deleteOne :: "country_db \<Rightarrow> string \<Rightarrow> nat \<Rightarrow> (error + bool) \<times> country_db" where
  "deleteOne db tableName wh_id =
     (case getModel (tables db) tableName of
        Inl e \<Rightarrow> (Inl e, db)
      | Inr model \<Rightarrow>
          let deletedCount = length (filter (\<lambda>r. col_id r = wh_id) model)
          in (Inr (deletedCount > 0),
              db\<lparr>tables := set_model (tables db) tableName (filter (\<lambda>r. col_id r \<noteq> wh_id) model)\<rparr>))"

section \<open>CountryModel: persistence of one country\<close>

text \<open>\<^verbatim>\<open>this.db.tableName\<close>, with \<^verbatim>\<open>G.tableConf = 'xf'\<close>.\<close>

definition country_table :: string where
  "country_table = ''xf_country''"

definition find_by_id :: "country_db \<Rightarrow> nat \<Rightarrow> error + country_row option" where
  "find_by_id db ident = findOne (tables db) country_table (\<lambda>r. col_id r = ident)"

definition findByCode :: "country_db \<Rightarrow> int \<Rightarrow> error + country_row option" where
  "findByCode db code = findOne (tables db) country_table (\<lambda>r. col_code r = code)"

definition findByIso :: "country_db \<Rightarrow> string \<Rightarrow> error + country_row option" where
  "findByIso db isoText = findOne (tables db) country_table (\<lambda>r. col_iso r = toUpperCase isoText)"

definition findByGuid :: "country_db \<Rightarrow> nat \<Rightarrow> error + country_row option" where
  "findByGuid db guid = findOne (tables db) country_table (\<lambda>r. col_guid r = guid)"

definition listAll ::
  "country_db \<Rightarrow> (country_row \<Rightarrow> bool) \<Rightarrow> pagination \<Rightarrow> error + country_row list" where
  "listAll db conditions paginationOptions =
     findAll (tables db) country_table conditions paginationOptions"

definition quote :: "string \<Rightarrow> string" where
  "quote s = [char_of (39::nat)] @ s @ [char_of (39::nat)]"

text \<open>
  \<^verbatim>\<open>CountryModel.create\<close>. After \<open>validate\<close> the code and the ISO code are set; the
  branches for their absence are what the ORM and the string method would throw.
  \<^verbatim>\<open>this.id\<close> receives the stored row, of which the model keeps the primary key; the
  check \<^verbatim>\<open>!lastID\<close> cannot fire on a row.
\<close>

definition create :: "Country \<Rightarrow> country_db \<Rightarrow> (error + Country) \<times> country_db" where
  "create this0 db =
     (case validate this0 of
        Inl e \<Rightarrow> (Inl e, db)
      | Inr this \<Rightarrow>
          (case guidGenerator (tables db) col_id country_table 6 of
             None \<Rightarrow> (Inl (Error ''Failed to generate GUID for country entry''), db)
           | Some guid \<Rightarrow>
               if guid = 0 then (Inl (Error ''Failed to generate GUID for country entry''), db)
               else
                 (case c_code this of
                    None \<Rightarrow>
                      (Inl (Error ''WHERE parameter \"code\" has invalid \"undefined\" value''), db)
                  | Some code \<Rightarrow>
                      (case findByCode db code of
                         Inl e \<Rightarrow> (Inl e, db)
                       | Inr (Some existingCode) \<Rightarrow>
                           (Inl (Error (''Country code '' @ quote (string_of_int code)
                                        @ '' already exists'')), db)
                       | Inr None \<Rightarrow>
                           (case c_iso this of
                              Value isoText \<Rightarrow>
                                (case findByIso db isoText of
                                   Inl e \<Rightarrow> (Inl e, db)
                                 | Inr (Some existingIso) \<Rightarrow>
                                     (Inl (Error (''Country ISO '' @ quote isoText
                                                  @ '' already exists'')), db)
                                 | Inr None \<Rightarrow>
                                     (case insertOne db country_table
                                             \<lparr>d_guid = Some guid, d_code = c_code this,
                                              d_iso = c_iso this, d_name = c_name this,
                                              d_timezone = c_timezone this,
                                              d_mobileRegex = c_mobileRegex this,
                                              d_flag = c_flag this\<rparr> of
                                        (Inl e, db') \<Rightarrow> (Inl e, db')
                                      | (Inr lastID, db') \<Rightarrow>
                                          (Inr (this\<lparr>c_id := Some (col_id lastID),
                                                      c_guid := Some guid\<rparr>), db')))
                            | _ \<Rightarrow>
                                (Inl (NamedError ''TypeError''
                                        ''Cannot read properties of undefined (reading 'toUpperCase')''),
                                 db))))))"

text \<open>\<^verbatim>\<open>CountryModel.update\<close>: the update payload holds the fields that are not
  \<^verbatim>\<open>undefined\<close>, and never the id or the GUID.\<close>

definition updateData :: "Country \<Rightarrow> country_data" where
  "updateData this =
     \<lparr>d_guid = None, d_code = c_code this, d_iso = c_iso this, d_name = c_name this,
      d_timezone = c_timezone this, d_mobileRegex = c_mobileRegex this, d_flag = c_flag this\<rparr>"

definition update :: "Country \<Rightarrow> country_db \<Rightarrow> (error + Country) \<times> country_db" where
  "update this0 db =
     (case validate this0 of
        Inl e \<Rightarrow> (Inl e, db)
      | Inr this \<Rightarrow>
          (case c_id this of
             None \<Rightarrow> (Inl (Error ''Country ID is required for update''), db)
           | Some ident \<Rightarrow>
               if ident = 0 then (Inl (Error ''Country ID is required for update''), db)
               else
                 (case updateOne db country_table (updateData this) ident of
                    (Inl e, db') \<Rightarrow> (Inl e, db')
                  | (Inr affected, db') \<Rightarrow>
                      if affected = 0 then (Inl (Error ''Failed to update country entry''), db')
                      else (Inr this, db'))))"

definition trash :: "country_db \<Rightarrow> nat \<Rightarrow> (error + bool) \<times> country_db" where
  "trash db ident = deleteOne db country_table ident"

section \<open>Country: the domain object\<close>

text \<open>\<^verbatim>\<open>new Country()\<close> and the fluent setters (class/Country.ts).\<close>

definition new_Country :: Country where
  "new_Country =
     \<lparr>c_id = None, c_guid = None, c_code = None, c_iso = Undefined, c_name = Undefined,
      c_timezone = Undefined, c_mobileRegex = Undefined, c_flag = Undefined\<rparr>"

definition setCode :: "int \<Rightarrow> Country \<Rightarrow> Country" where
  "setCode code this = this\<lparr>c_code := Some code\<rparr>"

definition setIso :: "string field \<Rightarrow> Country \<Rightarrow> Country" where
  "setIso isoText this = this\<lparr>c_iso := isoText\<rparr>"

definition setName :: "string field \<Rightarrow> Country \<Rightarrow> Country" where
  "setName name this = this\<lparr>c_name := name\<rparr>"

definition setTimezone :: "string field \<Rightarrow> Country \<Rightarrow> Country" where
  "setTimezone timezone this = this\<lparr>c_timezone := timezone\<rparr>"

definition setMobileRegex :: "string field \<Rightarrow> Country \<Rightarrow> Country" where
  "setMobileRegex mobileRegex this = this\<lparr>c_mobileRegex := mobileRegex\<rparr>"

definition setFlag :: "string field \<Rightarrow> Country \<Rightarrow> Country" where
  "setFlag flag this = this\<lparr>c_flag := flag\<rparr>"

definition field_of :: "'a option \<Rightarrow> 'a field" where
  "field_of x = (case x of None \<Rightarrow> Null | Some v \<Rightarrow> Value v)"

definition hydrate :: "country_row \<Rightarrow> Country" where
  "hydrate data =
     \<lparr>c_id = Some (col_id data), c_guid = Some (col_guid data), c_code = Some (col_code data),
      c_iso = Value (col_iso data), c_name = Value (col_name data),
      c_timezone = field_of (col_timezone data),
      c_mobileRegex = field_of (col_mobileRegex data),
      c_flag = field_of (col_flag data)\<rparr>"

definition isNew :: "Country \<Rightarrow> bool" where
  "isNew this = (c_id this = None)"

text \<open>\<^verbatim>\<open>save\<close> rethrows as \<^verbatim>\<open>new Error(error)\<close>, whose message is the text of the
  caught error.\<close>

definition save :: "Country \<Rightarrow> country_db \<Rightarrow> (error + Country) \<times> country_db" where
  "save this db =
     (case (if isNew this then create this db else update this db) of
        (Inl e, db') \<Rightarrow> (Inl (Error (toString e)), db')
      | (Inr this', db') \<Rightarrow> (Inr this', db'))"

text \<open>\<^verbatim>\<open>delete\<close>; \<^verbatim>\<open>W.isOccur\<close> throws when the id is falsy (0).\<close>

definition delete :: "Country \<Rightarrow> country_db \<Rightarrow> (error + bool) \<times> country_db" where
  "delete this db =
     (case c_id this of
        None \<Rightarrow> (Inr False, db)
      | Some ident \<Rightarrow>
          if ident = 0 then (Inl (Error ''identifier_missing: Country Delete''), db)
          else trash db ident)"

text \<open>
  The identifier of \<^verbatim>\<open>load\<close> is a number for a lookup by id, GUID or code and a
  string for a lookup by ISO code, as the routes pass it. Another combination makes the
  string method or the driver throw; the error values stand for that.
\<close>

datatype ident = Num nat | Str string

definition load ::
  "country_db \<Rightarrow> ident \<Rightarrow> bool \<Rightarrow> bool \<Rightarrow> bool \<Rightarrow> error + Country option" where
  "load db identifier byGuid byCode byIso =
     (let data =
        (if byGuid then
           (case identifier of
              Num n \<Rightarrow> findByGuid db n
            | Str s \<Rightarrow> Inl (NamedError ''SequelizeDatabaseError'' ''invalid input syntax''))
         else if byCode then
           (case identifier of
              Num n \<Rightarrow> findByCode db (int n)
            | Str s \<Rightarrow> Inl (NamedError ''SequelizeDatabaseError'' ''invalid input syntax''))
         else if byIso then
           (case identifier of
              Str s \<Rightarrow> findByIso db s
            | Num n \<Rightarrow> Inl (NamedError ''TypeError'' ''iso.toUpperCase is not a function''))
         else
           (case identifier of
              Num n \<Rightarrow> find_by_id db n
            | Str s \<Rightarrow> Inl (NamedError ''SequelizeDatabaseError'' ''invalid input syntax'')))
      in case data of
           Inl e \<Rightarrow> Inl e
         | Inr None \<Rightarrow> Inr None
         | Inr (Some row) \<Rightarrow> Inr (Some (hydrate row)))"

definition list ::
  "country_db \<Rightarrow> (country_row \<Rightarrow> bool) \<Rightarrow> pagination \<Rightarrow> error + Country list" where
  "list db conditions paginationOptions =
     (case listAll db conditions paginationOptions of
        Inl e \<Rightarrow> Inl e
      | Inr dataset \<Rightarrow> Inr (map hydrate dataset))"

definition json_of_field :: "('a \<Rightarrow> json) \<Rightarrow> 'a field \<Rightarrow> json option" where
  "json_of_field f x = (case x of Undefined \<Rightarrow> None | Null \<Rightarrow> Some JNull | Value v \<Rightarrow> Some (f v))"

definition toJSON :: "Country \<Rightarrow> json" where
  "toJSON this =
     props [(''guid'', map_option (\<lambda>g. JNum (int g)) (c_guid this)),
            (''code'', map_option JNum (c_code this)),
            (''iso'', json_of_field JStr (c_iso this)),
            (''name'', json_of_field JStr (c_name this)),
            (''timezone'', json_of_field JStr (c_timezone this)),
            (''mobileRegex'', json_of_field JStr (c_mobileRegex this)),
            (''flag'', json_of_field JStr (c_flag this))]"

section \<open>The country routes\<close>

text \<open>
  The handlers of routes/country.route.ts. Each takes the time of the request (as
  \<^verbatim>\<open>toISOString\<close> prints it) and the database, and returns the response it sends
  and the database it leaves. \<^verbatim>\<open>Ensure.post()\<close> and its siblings let a request of
  the route's own method pass unchanged.

  The JSON body of a POST or PUT: the code is a number and the other fields are strings,
  each possibly absent or \<^verbatim>\<open>null\<close>.
\<close>

record country_body =
  b_code :: "int field"
  b_iso :: "string field"
  b_name :: "string field"
  b_timezone :: "string field"
  b_mobileRegex :: "string field"
  b_flag :: "string field"

definition falsy_str :: "string field \<Rightarrow> bool" where
  "falsy_str x = (case x of Value s \<Rightarrow> s = [] | _ \<Rightarrow> True)"

text \<open>The \<^verbatim>\<open>catch\<close> of POST and PUT: the status and code depend on what the
  message contains.\<close>

definition save_error_response :: "string \<Rightarrow> string \<Rightarrow> string \<Rightarrow> response" where
  "save_error_response now fallback msg =
     (if str_includes msg ''already exists'' then
        handleError now CONFLICT (code_message ''country_already_exists'' msg)
      else if str_includes msg ''ISO'' then
        handleError now BAD_REQUEST (code_message ''invalid_iso'' msg)
      else if str_includes msg ''code'' then
        handleError now BAD_REQUEST (code_message ''invalid_code'' msg)
      else handleError now BAD_REQUEST (code_message fallback msg))"

text \<open>\<^verbatim>\<open>POST /\<close>. \<open>country_of_body\<close> is the instance the handler builds with the
  setters: code, ISO code and name always, the other fields when they are truthy.\<close>

definition country_of_body :: "int \<Rightarrow> country_body \<Rightarrow> Country" where
  "country_of_body code reqBody =
     (let country0 = setName (b_name reqBody) (setIso (b_iso reqBody) (setCode code new_Country));
          country1 = (if falsy_str (b_timezone reqBody) then country0
                      else setTimezone (b_timezone reqBody) country0);
          country2 = (if falsy_str (b_mobileRegex reqBody) then country1
                      else setMobileRegex (b_mobileRegex reqBody) country1)
      in if falsy_str (b_flag reqBody) then country2 else setFlag (b_flag reqBody) country2)"

definition post_country :: "string \<Rightarrow> country_db \<Rightarrow> country_body \<Rightarrow> response \<times> country_db" where
  "post_country now db reqBody =
     (case b_code reqBody of
        Value code \<Rightarrow>
          if code = 0 then
            (handleError now BAD_REQUEST (code_message ''code_required'' ''Country code is required''), db)
          else if falsy_str (b_iso reqBody) then
            (handleError now BAD_REQUEST
               (code_message ''iso_required'' ''Country ISO code is required''), db)
          else if falsy_str (b_name reqBody) then
            (handleError now BAD_REQUEST
               (code_message ''name_required'' ''Country name is required''), db)
          else
            (case save (country_of_body code reqBody) db of
               (Inl e, db') \<Rightarrow> (save_error_response now ''creation_failed'' (message e), db')
             | (Inr country, db') \<Rightarrow> (handleCreated (toJSON country), db'))
      | _ \<Rightarrow>
          (handleError now BAD_REQUEST (code_message ''code_required'' ''Country code is required''), db))"

text \<open>\<^verbatim>\<open>PUT /:guid\<close>. \<open>apply_body\<close> sets the fields the body supplies (those that are
  not \<^verbatim>\<open>undefined\<close>); \<^verbatim>\<open>Number(null)\<close> is 0. The branch for a parameter that
  does not parse is not reached behind the format check.\<close>

definition apply_body :: "country_body \<Rightarrow> Country \<Rightarrow> Country" where
  "apply_body reqBody country0 =
     (let country1 = (case b_code reqBody of
                        Undefined \<Rightarrow> country0
                      | Null \<Rightarrow> setCode 0 country0
                      | Value code \<Rightarrow> setCode code country0);
          country2 = (if b_iso reqBody \<noteq> Undefined then setIso (b_iso reqBody) country1
                      else country1);
          country3 = (if b_name reqBody \<noteq> Undefined then setName (b_name reqBody) country2
                      else country2);
          country4 = (if b_timezone reqBody \<noteq> Undefined
                      then setTimezone (b_timezone reqBody) country3 else country3);
          country5 = (if b_mobileRegex reqBody \<noteq> Undefined
                      then setMobileRegex (b_mobileRegex reqBody) country4 else country4)
      in if b_flag reqBody \<noteq> Undefined then setFlag (b_flag reqBody) country5 else country5)"

definition put_country ::
  "string \<Rightarrow> country_db \<Rightarrow> string \<Rightarrow> country_body \<Rightarrow> response \<times> country_db" where
  "put_country now db guid_param reqBody =
     (if \<not> test (Times 6 (Class isDigit)) guid_param then
        (handleError now BAD_REQUEST
           (code_message ''invalid_guid'' ''GUID must be a positive integer''), db)
      else
        (case parseInt guid_param of
           None \<Rightarrow> (save_error_response now ''update_failed'' ''invalid input syntax'', db)
         | Some guid \<Rightarrow>
             (case load db (Num (nat guid)) True False False of
                Inl e \<Rightarrow> (save_error_response now ''update_failed'' (message e), db)
              | Inr None \<Rightarrow>
                  (handleError now NOT_FOUND
                     (code_message ''country_not_found'' ''Country not found''), db)
              | Inr (Some country0) \<Rightarrow>
                  (case save (apply_body reqBody country0) db of
                     (Inl e, db') \<Rightarrow> (save_error_response now ''update_failed'' (message e), db')
                   | (Inr country, db') \<Rightarrow> (handleSuccess (toJSON country) SUCCESS, db')))))"

text \<open>\<^verbatim>\<open>DELETE /:guid\<close>; \<^verbatim>\<open>G.savedError\<close> is the body when nothing was deleted.\<close>

definition savedError :: json where
  "savedError = code_message ''data_saved_error'' ''items not saved''"

definition delete_country :: "string \<Rightarrow> country_db \<Rightarrow> string \<Rightarrow> response \<times> country_db" where
  "delete_country now db guid_param =
     (if \<not> test (Plus (Class isDigit)) guid_param then
        (handleError now BAD_REQUEST
           (code_message ''invalid_guid'' ''GUID must be a positive integer''), db)
      else
        (case parseInt guid_param of
           None \<Rightarrow>
             (handleError now INTERNAL_ERROR
                (code_message ''deletion_failed'' ''invalid input syntax''), db)
         | Some guid \<Rightarrow>
             (case load db (Num (nat guid)) True False False of
                Inl e \<Rightarrow>
                  (handleError now INTERNAL_ERROR (code_message ''deletion_failed'' (message e)), db)
              | Inr None \<Rightarrow>
                  (handleError now NOT_FOUND
                     (code_message ''country_not_found'' ''Country not found''), db)
              | Inr (Some country) \<Rightarrow>
                  (case delete country db of
                     (Inl e, db') \<Rightarrow>
                       (handleError now INTERNAL_ERROR
                          (code_message ''deletion_failed'' (message e)), db')
                   | (Inr deleted, db') \<Rightarrow>
                       if deleted then
                         (handleSuccess
                            (props [(''message'', Some (JStr ''Country deleted successfully'')),
                                    (''guid'', Some (JNum guid)),
                                    (''iso'', json_of_field JStr (c_iso country)),
                                    (''name'', json_of_field JStr (c_name country))])
                            SUCCESS, db')
                       else (handleError now INTERNAL_ERROR savedError, db')))))"

text \<open>\<^verbatim>\<open>GET /:identifier\<close>: by id first, then by GUID, then by code; two letters are
  looked up as an ISO code.\<close>

definition search_failed :: "string \<Rightarrow> string \<Rightarrow> response" where
  "search_failed now msg = handleError now INTERNAL_ERROR (code_message ''search_failed'' msg)"

definition found_or_404 :: "string \<Rightarrow> string \<Rightarrow> Country option \<Rightarrow> response" where
  "found_or_404 now msg country =
     (case country of
        None \<Rightarrow> handleError now NOT_FOUND (code_message ''country_not_found'' msg)
      | Some c \<Rightarrow> handleSuccess (toJSON c) SUCCESS)"

definition get_country :: "string \<Rightarrow> country_db \<Rightarrow> string \<Rightarrow> response" where
  "get_country now db identifier =
     (let not_found = ''Country with identifier '' @ quote identifier @ '' not found'';
          failed = search_failed now ''Failed to search country''
      in if test (Plus (Class isDigit)) identifier then
           (case parseInt identifier of
              None \<Rightarrow> failed
            | Some numericId \<Rightarrow>
                (case load db (Num (nat numericId)) False False False of
                   Inl e \<Rightarrow> failed
                 | Inr (Some country) \<Rightarrow> found_or_404 now not_found (Some country)
                 | Inr None \<Rightarrow>
                     (case load db (Num (nat numericId)) True False False of
                        Inl e \<Rightarrow> failed
                      | Inr (Some country) \<Rightarrow> found_or_404 now not_found (Some country)
                      | Inr None \<Rightarrow>
                          (case load db (Num (nat numericId)) False True False of
                             Inl e \<Rightarrow> failed
                           | Inr country \<Rightarrow> found_or_404 now not_found country))))
         else if test (Times 2 (Class (\<lambda>c. isUpper c \<or> isLower c))) identifier then
           (case load db (Str (toUpperCase identifier)) False False True of
              Inl e \<Rightarrow> failed
            | Inr country \<Rightarrow> found_or_404 now not_found country)
         else found_or_404 now not_found None)"

text \<open>\<^verbatim>\<open>GET /search/iso/:iso\<close> and \<^verbatim>\<open>GET /search/code/:code\<close>\<close>

definition get_search_iso :: "string \<Rightarrow> country_db \<Rightarrow> string \<Rightarrow> response" where
  "get_search_iso now db iso_param =
     (if \<not> test (Times 2 (Class (\<lambda>c. isUpper c \<or> isLower c))) iso_param then
        handleError now BAD_REQUEST
          (code_message ''invalid_iso_format'' ''ISO code must be exactly 2 letters'')
      else
        (case load db (Str (toUpperCase iso_param)) False False True of
           Inl e \<Rightarrow> search_failed now ''Failed to search country by ISO''
         | Inr country \<Rightarrow>
             found_or_404 now
               (''Country with ISO '' @ quote (toUpperCase iso_param) @ '' not found'') country))"

definition get_search_code :: "string \<Rightarrow> country_db \<Rightarrow> string \<Rightarrow> response" where
  "get_search_code now db code_param =
     (if \<not> test (Plus (Class isDigit)) code_param then
        handleError now BAD_REQUEST
          (code_message ''invalid_code_format'' ''Code must be a positive integer'')
      else
        (case parseInt code_param of
           None \<Rightarrow> search_failed now ''Failed to search country by code''
         | Some numericCode \<Rightarrow>
             (case load db (Num (nat numericCode)) False True False of
                Inl e \<Rightarrow> search_failed now ''Failed to search country by code''
              | Inr country \<Rightarrow>
                  found_or_404 now
                    (''Country with code '' @ quote (string_of_int numericCode) @ '' not found'')
                    country)))"

text \<open>\<^verbatim>\<open>GET /list\<close>, with the optional \<^verbatim>\<open>timezone\<close> filter of the query.\<close>

record list_query = query +
  q_timezone :: "string option"

definition get_list :: "string \<Rightarrow> country_db \<Rightarrow> list_query \<Rightarrow> response" where
  "get_list now db q =
     (let conditions =
            (case q_timezone q of
               None \<Rightarrow> (\<lambda>r. True)
             | Some tz \<Rightarrow> if tz = [] then (\<lambda>r. True) else (\<lambda>r. col_timezone r = Some tz));
          paginationOptions = extractPaginationFromQuery q
      in case list db conditions paginationOptions of
           Inl e \<Rightarrow>
             handleError now INTERNAL_ERROR
               (code_message ''listing_failed'' ''Failed to list countries'')
         | Inr countryEntries \<Rightarrow>
             handleSuccess
               (JObj [(''countries'',
                  JObj [(''pagination'',
                           JObj [(''offset'', JNum (case p_offset paginationOptions of
                                                      None \<Rightarrow> 0 | Some n \<Rightarrow> n)),
                                 (''limit'', JNum (case p_limit paginationOptions of
                                                     None \<Rightarrow> int (length countryEntries)
                                                   | Some n \<Rightarrow> n)),
                                 (''count'', JNum (int (length countryEntries)))]),
                        (''items'', JArr (map toJSON countryEntries))])])
               SUCCESS)"

section \<open>Revision strings\<close>

text \<open>
  A \<^verbatim>\<open>Date\<close> as the program observes it: its time value in milliseconds and what the
  UTC accessors return (month from 0, day of the month from 1).
\<close>

record Date =
  getTime :: int
  getUTCFullYear :: int
  getUTCMonth :: nat
  getUTCDate :: nat
  getUTCHours :: nat
  getUTCMinutes :: nat

definition utc_fields_in_range :: "Date \<Rightarrow> bool" where
  "utc_fields_in_range d =
     (getUTCMonth d \<le> 11 \<and> 1 \<le> getUTCDate d \<and> getUTCDate d \<le> 31
      \<and> getUTCHours d \<le> 23 \<and> getUTCMinutes d \<le> 59)"

text \<open>
  \<^verbatim>\<open>Revision.getRevision(tableName)\<close> (utils/revision.ts); \<open>lastModified\<close> is what
  \<^verbatim>\<open>findLastModification(tableName)\<close> resolved to, \<^verbatim>\<open>null\<close> being \<open>None\<close>.
\<close>

definition getRevision :: "Date option \<Rightarrow> string" where
  "getRevision lastModified =
     (case lastModified of
        None \<Rightarrow> ''202501010000''
      | Some d \<Rightarrow>
          let year = getUTCFullYear d;
              month = padStart0 2 (string_of_nat (getUTCMonth d + 1));
              day = padStart0 2 (string_of_nat (getUTCDate d));
              hours = padStart0 2 (string_of_nat (getUTCHours d));
              minutes = padStart0 2 (string_of_nat (getUTCMinutes d))
          in string_of_int year @ month @ day @ hours @ minutes)"

text \<open>The format \<^verbatim>\<open>YYYYMMDDHHMM\<close> written out: decimal numbers of fixed width.\<close>

fun fixed_decimal :: "nat \<Rightarrow> nat \<Rightarrow> string" where
  "fixed_decimal 0 n = []"
| "fixed_decimal (Suc k) n = fixed_decimal k (n div 10) @ [digitChar (n mod 10)]"

definition YYYYMMDDHHMM :: "Date \<Rightarrow> string" where
  "YYYYMMDDHHMM d =
     fixed_decimal 4 (nat (getUTCFullYear d)) @ fixed_decimal 2 (getUTCMonth d + 1)
     @ fixed_decimal 2 (getUTCDate d) @ fixed_decimal 2 (getUTCHours d)
     @ fixed_decimal 2 (getUTCMinutes d)"

section \<open>Billing cycles: status-dependent fields\<close>

text \<open>\<^verbatim>\<open>BillingStatus\<close> and the fields of a billing cycle that the validators below read
  (billing.cycle.db.ts); a date that is \<^verbatim>\<open>null\<close> or \<^verbatim>\<open>undefined\<close> is \<open>None\<close>.\<close>

datatype BillingStatus = PENDING | PROCESSING | COMPLETED | FAILED | CANCELLED | OVERDUE

record billing_cycle =
  billing_status :: BillingStatus
  invoice_generated_at :: "Date option"
  payment_due_date :: "Date option"
  payment_completed_at :: "Date option"


text \<open>The model-level validator \<^verbatim>\<open>statusDependentFields\<close>; \<open>now\<close> is
  \<^verbatim>\<open>new Date()\<close>, and dates compare by their time values.\<close>

definition statusDependentFields :: "Date \<Rightarrow> billing_cycle \<Rightarrow> error + unit" where
  "statusDependentFields now this =
     (if billing_status this = COMPLETED \<and> invoice_generated_at this = None
      then Inl (Error ''Invoice generated date is required for completed billing cycles'')
      else if billing_status this = COMPLETED \<and> payment_completed_at this = None
      then Inl (Error ''Payment completed date is required for completed billing cycles'')
      else if billing_status this = OVERDUE
              \<and> (case payment_due_date this of None \<Rightarrow> True | Some due \<Rightarrow> getTime due \<ge> getTime now)
      then Inl (Error ''Billing cycle can only be OVERDUE if payment due date has passed'')
      else Inr ())"

section \<open>License adjustments: the model-level validator\<close>

text \<open>
  The fields of a license adjustment that \<^verbatim>\<open>validateAdjustmentModel\<close> reads
  (license.adjustment.db.ts). A number is given by its value, \<open>None\<close> standing for
  \<^verbatim>\<open>undefined\<close> or \<^verbatim>\<open>null\<close>; it is truthy when it is present and not 0. A date is
  truthy when it is present; \<open>adj_payment_completed_at\<close> is the adjustment's
  \<^verbatim>\<open>payment_completed_at\<close>.

  JavaScript computes in double precision: every product, sum and difference is the exact
  result rounded to a double. The rounding is the parameter \<open>fl\<close> of the validator, and
  nothing is assumed about it; the literal \<^verbatim>\<open>0.01\<close> is \<open>fl (1/100)\<close>.
\<close>

record adjustment =
  employees_added_count :: "rat option"
  months_remaining :: "rat option"
  price_per_employee_usd :: "rat option"
  subtotal_usd :: "rat option"
  tax_amount_usd :: "rat option"
  total_amount_usd :: "rat option"
  exchange_rate_used :: "rat option"
  subtotal_local :: "rat option"
  tax_amount_local :: "rat option"
  total_amount_local :: "rat option"
  adjustment_date :: "Date option"
  invoice_sent_at :: "Date option"
  adj_payment_completed_at :: "Date option"

definition truthy :: "rat option \<Rightarrow> bool" where
  "truthy x = (case x of None \<Rightarrow> False | Some q \<Rightarrow> q \<noteq> 0)"

definition number :: "rat option \<Rightarrow> rat" where
  "number x = (case x of None \<Rightarrow> 0 | Some q \<Rightarrow> q)"

text \<open>\<^verbatim>\<open>Math.abs(calculated - stored) > tolerance\<close>\<close>

definition off_by_more_than_tolerance :: "(rat \<Rightarrow> rat) \<Rightarrow> rat \<Rightarrow> rat \<Rightarrow> bool" where
  "off_by_more_than_tolerance fl calculated stored = (\<bar>fl (calculated - stored)\<bar> > fl (1 / 100))"

definition plus_minus :: string where
  "plus_minus = [char_of (177::nat)]"

definition subtotal_error :: string where
  "subtotal_error =
     ''Subtotal calculation error: employees_added_count * months_remaining * price_per_employee_usd must equal subtotal_usd (''
     @ plus_minus @ ''0.01)''"

definition total_error :: string where
  "total_error =
     ''Total calculation error: subtotal_usd + tax_amount_usd must equal total_amount_usd (''
     @ plus_minus @ ''0.01)''"

definition local_subtotal_error :: string where
  "local_subtotal_error =
     ''Local subtotal inconsistency: subtotal_usd * exchange_rate_used must equal subtotal_local (''
     @ plus_minus @ ''0.01)''"

definition local_tax_error :: string where
  "local_tax_error =
     ''Local tax inconsistency: tax_amount_usd * exchange_rate_used must equal tax_amount_local (''
     @ plus_minus @ ''0.01)''"

definition local_total_error :: string where
  "local_total_error =
     ''Local total inconsistency: total_amount_usd * exchange_rate_used must equal total_amount_local (''
     @ plus_minus @ ''0.01)''"

text \<open>The five blocks of the validator, each giving the errors it pushes.\<close>

definition subtotal_check :: "(rat \<Rightarrow> rat) \<Rightarrow> adjustment \<Rightarrow> string list" where
  "subtotal_check fl data =
     (if truthy (employees_added_count data) \<and> truthy (months_remaining data)
         \<and> truthy (price_per_employee_usd data) \<and> truthy (subtotal_usd data)
      then
        let calculatedSubtotal =
              fl (fl (number (employees_added_count data) * number (months_remaining data))
                  * number (price_per_employee_usd data))
        in if off_by_more_than_tolerance fl calculatedSubtotal (number (subtotal_usd data))
           then [subtotal_error] else []
      else [])"

definition total_check :: "(rat \<Rightarrow> rat) \<Rightarrow> adjustment \<Rightarrow> string list" where
  "total_check fl data =
     (if truthy (subtotal_usd data) \<and> truthy (tax_amount_usd data) \<and> truthy (total_amount_usd data)
      then
        let calculatedTotal = fl (number (subtotal_usd data) + number (tax_amount_usd data))
        in if off_by_more_than_tolerance fl calculatedTotal (number (total_amount_usd data))
           then [total_error] else []
      else [])"

definition local_check :: "(rat \<Rightarrow> rat) \<Rightarrow> adjustment \<Rightarrow> string list" where
  "local_check fl data =
     (if truthy (exchange_rate_used data) \<and> truthy (subtotal_usd data)
         \<and> truthy (tax_amount_usd data) \<and> truthy (total_amount_usd data)
         \<and> truthy (subtotal_local data) \<and> truthy (tax_amount_local data)
         \<and> truthy (total_amount_local data)
      then
        let calculatedSubtotalLocal =
              fl (number (subtotal_usd data) * number (exchange_rate_used data));
            calculatedTaxLocal =
              fl (number (tax_amount_usd data) * number (exchange_rate_used data));
            calculatedTotalLocal =
              fl (number (total_amount_usd data) * number (exchange_rate_used data))
        in (if off_by_more_than_tolerance fl calculatedSubtotalLocal (number (subtotal_local data))
            then [local_subtotal_error] else [])
           @ (if off_by_more_than_tolerance fl calculatedTaxLocal (number (tax_amount_local data))
              then [local_tax_error] else [])
           @ (if off_by_more_than_tolerance fl calculatedTotalLocal (number (total_amount_local data))
              then [local_total_error] else [])
      else [])"

definition payment_before ::
  "Date option \<Rightarrow> Date option \<Rightarrow> string \<Rightarrow> string list" where
  "payment_before earlier payment msg =
     (case (earlier, payment) of
        (Some e, Some p) \<Rightarrow> if getTime p < getTime e then [msg] else []
      | _ \<Rightarrow> [])"

record validation_result =
  isValid :: bool
  errors :: "string list"

definition validateAdjustmentModel :: "(rat \<Rightarrow> rat) \<Rightarrow> adjustment \<Rightarrow> validation_result" where
  "validateAdjustmentModel fl data =
     (let errs =
            subtotal_check fl data @ total_check fl data @ local_check fl data
            @ payment_before (adjustment_date data) (adj_payment_completed_at data)
                ''payment_completed_at must be after adjustment_date''
            @ payment_before (invoice_sent_at data) (adj_payment_completed_at data)
                ''payment_completed_at must be after invoice_sent_at''
      in \<lparr>isValid = (length errs = 0), errors = errs\<rparr>)"

section \<open>Response envelopes\<close>

text \<open>
  The two shapes of a JSON response: \<^verbatim>\<open>{ success: true, data }\<close> and
  \<^verbatim>\<open>{ success: false, error: { code, message }, timestamp }\<close>, with the statuses the
  routes send them under.
\<close>

definition is_string :: "json option \<Rightarrow> bool" where
  "is_string j = (case j of Some (JStr s) \<Rightarrow> True | _ \<Rightarrow> False)"

definition success_envelope :: "response \<Rightarrow> bool" where
  "success_envelope r =
     (case body r of
        Some (JObj fs) \<Rightarrow>
          map_of fs ''success'' = Some (JBool True) \<and> map_of fs ''data'' \<noteq> None
          \<and> map_of fs ''error'' = None \<and> map_of fs ''timestamp'' = None
      | _ \<Rightarrow> False)"

definition error_envelope :: "response \<Rightarrow> bool" where
  "error_envelope r =
     (case body r of
        Some (JObj fs) \<Rightarrow>
          map_of fs ''success'' = Some (JBool False) \<and> map_of fs ''data'' = None
          \<and> (case map_of fs ''error'' of
                Some (JObj es) \<Rightarrow> is_string (map_of es ''code'') \<and> is_string (map_of es ''message'')
              | _ \<Rightarrow> False)
          \<and> is_string (map_of fs ''timestamp'')
      | _ \<Rightarrow> False)"

definition envelope :: "response \<Rightarrow> bool" where
  "envelope r =
     ((success_envelope r \<and> (status r = 200 \<or> status r = 201))
      \<or> (error_envelope r \<and> (status r = 400 \<or> status r = 404 \<or> status r = 409 \<or> status r = 500)))"

section \<open>Example data\<close>

definition cameroon :: country_row where
  "cameroon =
     \<lparr>col_id = 3, col_guid = 100003, col_code = 237, col_iso = ''CM'', col_name = ''Cameroon'',
      col_timezone = Some ''Africa/Douala'', col_mobileRegex = None, col_flag = None\<rparr>"

definition example_db :: country_db where
  "example_db =
     \<lparr>tables = \<lparr>initialized = True, models = [(''xf_country'', [cameroon])]\<rparr>, serial = 3\<rparr>"

definition example_body :: country_body where
  "example_body =
     \<lparr>b_code = Value 237, b_iso = Value ''fr'', b_name = Value ''France'',
      b_timezone = Value ''Europe/Paris'', b_mobileRegex = Undefined, b_flag = Undefined\<rparr>"

definition example_adjustment :: adjustment where
  "example_adjustment =
     \<lparr>employees_added_count = None, months_remaining = None, price_per_employee_usd = None,
      subtotal_usd = Some 100, tax_amount_usd = Some 0, total_amount_usd = Some 200,
      exchange_rate_used = None, subtotal_local = None, tax_amount_local = None,
      total_amount_local = None, adjustment_date = None, invoice_sent_at = None,
      adj_payment_completed_at = None\<rparr>"

definition example_time :: string where
  "example_time = ''2025-01-15T12:30:00.000Z''"

section \<open>Properties of the GUID generator\<close>

lemma fold_max_eq_Max: "fold max xs (x::nat) = Max (set (x # xs))"
  by (rule Max.set_eq_fold [symmetric])

lemma max_col_Nil: "max_col col [] = None"
  by (simp add: max_col_def)

lemma max_col_nonempty:
  assumes "rows \<noteq> []"
  shows "max_col col rows = Some (Max (col ` set rows))"
proof -
  obtain r rs where rows: "rows = r # rs"
    using assms by (cases rows) auto
  show ?thesis
    unfolding max_col_def rows by (simp add: fold_max_eq_Max)
qed

lemma guidGenerator_value:
  assumes "getModel ti tableName = Inr rows" and "3 \<le> len"
  shows "guidGenerator ti pk tableName len =
           Some (10 ^ nat (len - 1) + (if rows = [] then 0 else Max (pk ` set rows)) + 1)"
proof (cases "rows = []")
  case True
  then show ?thesis
    using assms by (simp add: guidGenerator_def max_col_Nil)
next
  case False
  then show ?thesis
    using assms by (simp add: guidGenerator_def max_col_nonempty)
qed

text \<open>
  C2. As stated (the GUID is \<open>max(id) + 100000\<close>) the claim fails already on an empty
  table, where the generator returns 100001.
\<close>

theorem C2_guid_empty_table_counterexample:
  "guidGenerator \<lparr>initialized = True, models = [(''xf_country'', [])]\<rparr> (\<lambda>r::nat. r)
     ''xf_country'' 6 = Some 100001
   \<and> guidGenerator \<lparr>initialized = True, models = [(''xf_country'', [])]\<rparr> (\<lambda>r::nat. r)
     ''xf_country'' 6 \<noteq> Some (10 ^ 5 + 0)"
  by (simp add: guidGenerator_def getModel_def max_col_def)

text \<open>
  C2 (amended). For every registered table whose current maximum primary key is \<open>m\<close>
  (0 when the table is empty), the generator with length 6 returns \<open>offset + m + 1\<close>
  with \<open>offset = 10^5\<close>: the GUID is \<open>max(id) + 100001\<close>.
\<close>

theorem C2_guid_is_offset_plus_next_id:
  assumes "getModel ti tableName = Inr rows"
  shows "guidGenerator ti pk tableName 6 =
           Some (10 ^ 5 + (if rows = [] then 0 else Max (pk ` set rows)) + 1)"
  using guidGenerator_value [OF assms, of 6 pk] by simp

theorem C2_guid_is_offset_plus_next_id_witness:
  "getModel \<lparr>initialized = True, models = [(''xf_country'', [3, 1, 2::nat])]\<rparr> ''xf_country''
     = Inr [3, 1, 2]
   \<and> guidGenerator \<lparr>initialized = True, models = [(''xf_country'', [3, 1, 2])]\<rparr> (\<lambda>r::nat. r)
       ''xf_country'' 6 = Some 100004"
proof -
  have h: "getModel \<lparr>initialized = True, models = [(''xf_country'', [3, 1, 2::nat])]\<rparr>
             ''xf_country'' = Inr [3, 1, 2]"
    by (simp add: getModel_def)
  show ?thesis
    using h C2_guid_is_offset_plus_next_id [OF h, of "\<lambda>r. r"] by simp
qed

text \<open>
  C8. As stated (the GUID always lies between 100000 and 999999) the claim fails once the
  greatest primary key reaches 899999: the generator returns the seven-digit 1000000.
\<close>

theorem C8_guid_seven_digits_counterexample:
  "guidGenerator \<lparr>initialized = True, models = [(''xf_country'', [899999])]\<rparr> (\<lambda>r::nat. r)
     ''xf_country'' 6 = Some 1000000
   \<and> \<not> (1000000 \<le> (999999::nat))"
  by (simp add: guidGenerator_def getModel_def max_col_def)

text \<open>
  C8 (amended). For every registered table the generator with length 6 returns a number
  that is at least 100001, and that number is at most 999999 (six digits) exactly when
  every primary key of the table is at most 899998.
\<close>

theorem C8_guid_six_digits_iff_ids_small:
  assumes "getModel ti tableName = Inr rows"
  shows "\<exists>g. guidGenerator ti pk tableName 6 = Some g \<and> 100001 \<le> g
             \<and> (g \<le> 999999 \<longleftrightarrow> (\<forall>r \<in> set rows. pk r \<le> 899998))"
proof (cases "rows = []")
  case True
  then show ?thesis
    using guidGenerator_value [OF assms, of 6 pk] by simp
next
  case False
  then have "Max (pk ` set rows) \<le> 899998 \<longleftrightarrow> (\<forall>r \<in> set rows. pk r \<le> 899998)"
    by (simp add: Max_le_iff)
  then show ?thesis
    using False guidGenerator_value [OF assms, of 6 pk] by auto
qed

theorem C8_guid_six_digits_iff_ids_small_witness:
  "getModel \<lparr>initialized = True, models = [(''xf_country'', [3, 1, 2::nat])]\<rparr> ''xf_country''
     = Inr [3, 1, 2]
   \<and> (\<exists>g. guidGenerator \<lparr>initialized = True, models = [(''xf_country'', [3, 1, 2])]\<rparr>
              (\<lambda>r::nat. r) ''xf_country'' 6 = Some g \<and> 100001 \<le> g \<and> g \<le> 999999)"
proof -
  have h: "getModel \<lparr>initialized = True, models = [(''xf_country'', [3, 1, 2::nat])]\<rparr>
             ''xf_country'' = Inr [3, 1, 2]"
    by (simp add: getModel_def)
  show ?thesis
    using h C8_guid_six_digits_iff_ids_small [OF h, of "\<lambda>r. r"] by auto
qed

section \<open>Properties of pagination\<close>

lemma extract_limit_above_cap:
  assumes "parseInt s = Some n" and "1000 < n"
  shows "p_limit (extractPaginationFromQuery \<lparr>q_offset = qo, q_limit = Some s\<rparr>) = None"
  using assms by (simp add: extractPaginationFromQuery_def)

lemma extract_limit_in_range:
  assumes "parseInt s = Some n" and "0 < n" and "n \<le> 1000"
  shows "p_limit (extractPaginationFromQuery \<lparr>q_offset = qo, q_limit = Some s\<rparr>) = Some n"
  using assms by (simp add: extractPaginationFromQuery_def)

lemma findAll_limit_bounds_rows:
  assumes "findAll ti tableName wh \<lparr>p_offset = po, p_limit = Some n\<rparr> = Inr rs" and "0 < n"
  shows "int (length rs) \<le> n"
  using assms
  by (auto simp: findAll_def sequelize_findAll_def Let_def split: sum.splits option.splits)

lemma findAll_without_limit:
  assumes "getModel ti tableName = Inr rows"
  shows "findAll ti tableName wh \<lparr>p_offset = None, p_limit = None\<rparr> = Inr (filter wh rows)"
  using assms by (simp add: findAll_def sequelize_findAll_def)

lemma parseInt_1001: "parseInt ''1001'' = Some 1001"
  by (simp add: parseInt_def isWhiteSpace_def isDigit_def digitsValue_def)

text \<open>
  C1. A request with \<^verbatim>\<open>limit=1001\<close> on a table of 1001 rows: the limit is dropped
  instead of capped, and the list query returns all 1001 rows.
\<close>

theorem C1_limit_above_cap_returns_all_rows:
  "findAll \<lparr>initialized = True, models = [(''xf_country'', [1..<1002])]\<rparr> ''xf_country''
     (\<lambda>r. True) (extractPaginationFromQuery \<lparr>q_offset = None, q_limit = Some ''1001''\<rparr>)
     = Inr [1..<1002]
   \<and> length [1..<1002] = 1001"
proof -
  have "extractPaginationFromQuery \<lparr>q_offset = None, q_limit = Some ''1001''\<rparr>
          = \<lparr>p_offset = None, p_limit = None\<rparr>"
    by (simp add: extractPaginationFromQuery_def parseInt_1001)
  moreover have "getModel \<lparr>initialized = True, models = [(''xf_country'', [1..<1002])]\<rparr>
                   ''xf_country'' = Inr [1..<1002]"
    by (simp add: getModel_def)
  ultimately show ?thesis
    by (simp add: findAll_without_limit)
qed

section \<open>Properties of revision strings\<close>

lemma digitChar_numerals:
  "digitChar 0 = CHR ''0''" "digitChar 1 = CHR ''1''" "digitChar 2 = CHR ''2''"
  "digitChar 3 = CHR ''3''" "digitChar 4 = CHR ''4''" "digitChar 5 = CHR ''5''"
  "digitChar 6 = CHR ''6''" "digitChar 7 = CHR ''7''" "digitChar 8 = CHR ''8''"
  "digitChar 9 = CHR ''9''" "digitChar (Suc 0) = CHR ''1''"
  by code_simp+

lemma fixed_decimal_numeral:
  "fixed_decimal (numeral k) n = fixed_decimal (pred_numeral k) (n div 10) @ [digitChar (n mod 10)]"
proof -
  have "numeral k = Suc (pred_numeral k)"
    by (rule numeral_eq_Suc)
  then show ?thesis
    by (simp only: fixed_decimal.simps)
qed

lemma of_char_digitChar: "d < 10 \<Longrightarrow> (of_char (digitChar d) :: nat) = 48 + d"
  by (simp add: digitChar_def)

lemma isDigit_digitChar: "d < 10 \<Longrightarrow> isDigit (digitChar d)"
  by (simp add: isDigit_def of_char_digitChar)

lemma length_fixed_decimal: "length (fixed_decimal k n) = k"
  by (induction k arbitrary: n) simp_all

lemma digits_fixed_decimal: "list_all isDigit (fixed_decimal k n)"
  by (induction k arbitrary: n) (simp_all add: isDigit_digitChar)

lemma string_of_nat_fixed:
  "10 ^ k \<le> n \<Longrightarrow> n < 10 ^ Suc k \<Longrightarrow> string_of_nat n = fixed_decimal (Suc k) n"
proof (induction k arbitrary: n)
  case 0
  then show ?case
    by (simp add: string_of_nat.simps [of n])
next
  case (Suc k)
  have "(1::nat) \<le> 10 ^ k"
    by simp
  then have "(10::nat) \<le> 10 ^ Suc k"
    by simp
  then have "10 \<le> n"
    using Suc.prems(1) by (rule le_trans)
  moreover have "10 ^ k \<le> n div 10"
    using Suc.prems(1) by (simp add: less_eq_div_iff_mult_less_eq mult.commute)
  moreover have "n div 10 < 10 ^ Suc k"
    using Suc.prems(2) by (simp add: div_less_iff_less_mult mult.commute)
  ultimately show ?case
    using Suc.IH [of "n div 10"] by (simp add: string_of_nat.simps [of n])
qed

lemma string_of_nat_one_digit: "n < 10 \<Longrightarrow> string_of_nat n = fixed_decimal 1 n"
  by (simp add: string_of_nat.simps [of n])

lemma padStart0_two_digits:
  assumes "n < 100"
  shows "padStart0 2 (string_of_nat n) = fixed_decimal 2 n"
proof (cases "n < 10")
  case True
  then show ?thesis
    by (simp add: string_of_nat_one_digit padStart0_def digitChar_numerals numeral_2_eq_2)
next
  case False
  then have "string_of_nat n = fixed_decimal (Suc 1) n"
    using assms by (intro string_of_nat_fixed) simp_all
  then show ?thesis
    by (simp add: padStart0_def length_fixed_decimal numeral_2_eq_2)
qed

lemma string_of_int_four_digits:
  assumes "1000 \<le> y" and "y \<le> 9999"
  shows "string_of_int y = fixed_decimal 4 (nat y)"
proof -
  have a: "string_of_nat (nat y) = fixed_decimal (Suc 3) (nat y)"
    using assms by (intro string_of_nat_fixed) simp_all
  have b: "Suc 3 = 4"
    by simp
  have c: "string_of_int y = string_of_nat (nat y)"
    using assms by (simp add: string_of_int_def)
  show ?thesis
    unfolding c a b ..
qed

lemma getRevision_formatted:
  assumes "utc_fields_in_range d" and "1000 \<le> getUTCFullYear d" and "getUTCFullYear d \<le> 9999"
  shows "getRevision (Some d) = YYYYMMDDHHMM d"
  using assms
  by (simp add: getRevision_def YYYYMMDDHHMM_def utc_fields_in_range_def
      padStart0_two_digits string_of_int_four_digits)

lemma length_YYYYMMDDHHMM: "length (YYYYMMDDHHMM d) = 12"
  by (simp add: YYYYMMDDHHMM_def length_fixed_decimal)

lemma digits_YYYYMMDDHHMM: "list_all isDigit (YYYYMMDDHHMM d)"
  by (simp add: YYYYMMDDHHMM_def digits_fixed_decimal del: fixed_decimal.simps)

text \<open>
  C10. As stated (the result has exactly 12 decimal digits in every case) the claim fails
  for a last modification in the year 10000: the year is written with all its digits and
  the result has 13 characters.
\<close>

theorem C10_revision_year_10000_counterexample:
  "getRevision (Some \<lparr>getTime = 253402300800000, getUTCFullYear = 10000, getUTCMonth = 0,
                       getUTCDate = 1, getUTCHours = 0, getUTCMinutes = 0\<rparr>)
     = ''1000001010000''
   \<and> length ''1000001010000'' = 13"
  by (simp add: getRevision_def padStart0_def string_of_int_def string_of_nat.simps
      digitChar_numerals)

text \<open>
  C10 (amended). \<^verbatim>\<open>Revision.getRevision\<close> returns the constant string
  \<^verbatim>\<open>'202501010000'\<close> whenever the table has no last-modification timestamp; otherwise,
  when the UTC year of the last modification has four digits (1000 to 9999), it returns
  that instant formatted in UTC as \<^verbatim>\<open>YYYYMMDDHHMM\<close>; in both of these cases the result
  is a string of exactly 12 decimal digits.
\<close>

theorem C10_revision_format:
  "getRevision None = ''202501010000''
   \<and> length (getRevision None) = 12 \<and> list_all isDigit (getRevision None)
   \<and> (utc_fields_in_range d \<and> 1000 \<le> getUTCFullYear d \<and> getUTCFullYear d \<le> 9999
        \<longrightarrow> getRevision (Some d) = YYYYMMDDHHMM d
            \<and> length (getRevision (Some d)) = 12 \<and> list_all isDigit (getRevision (Some d)))"
proof -
  have "getRevision None = ''202501010000''"
    by (simp add: getRevision_def)
  moreover have "list_all isDigit ''202501010000''"
    by (simp add: isDigit_def)
  ultimately show ?thesis
    by (simp add: getRevision_formatted length_YYYYMMDDHHMM digits_YYYYMMDDHHMM)
qed

theorem C10_revision_format_witness:
  "utc_fields_in_range \<lparr>getTime = 1736944200000, getUTCFullYear = 2025, getUTCMonth = 0,
                        getUTCDate = 15, getUTCHours = 12, getUTCMinutes = 30\<rparr>
   \<and> getRevision (Some \<lparr>getTime = 1736944200000, getUTCFullYear = 2025, getUTCMonth = 0,
                         getUTCDate = 15, getUTCHours = 12, getUTCMinutes = 30\<rparr>)
       = ''202501151230''"
proof -
  let ?d = "\<lparr>getTime = 1736944200000, getUTCFullYear = 2025, getUTCMonth = 0,
             getUTCDate = 15, getUTCHours = 12, getUTCMinutes = 30\<rparr>"
  have r: "utc_fields_in_range ?d"
    by (simp add: utc_fields_in_range_def)
  have "YYYYMMDDHHMM ?d = ''202501151230''"
    by (simp add: YYYYMMDDHHMM_def digitChar_numerals fixed_decimal_numeral)
  then show ?thesis
    using r C10_revision_format [of ?d] by simp
qed

section \<open>Properties of the billing-cycle validators\<close>



lemma statusDependentFields_invoice:
  "billing_status r = COMPLETED \<Longrightarrow> statusDependentFields now r = Inr ()
     \<Longrightarrow> invoice_generated_at r \<noteq> None"
  by (auto simp: statusDependentFields_def split: if_splits)

section \<open>Properties of regular expressions and parsing\<close>












section \<open>Evaluating the model on concrete data\<close>

lemma Times_numeral: "Times (numeral k) r = Seq r (Times (pred_numeral k) r)"
proof -
  have "numeral k = Suc (pred_numeral k)"
    by (rule numeral_eq_Suc)
  then show ?thesis
    by (simp only: Times.simps)
qed

lemma upperChar_lower:
  "upperChar CHR ''a'' = CHR ''A''" "upperChar CHR ''b'' = CHR ''B''" "upperChar CHR ''c'' = CHR ''C''"
  "upperChar CHR ''d'' = CHR ''D''" "upperChar CHR ''e'' = CHR ''E''" "upperChar CHR ''f'' = CHR ''F''"
  "upperChar CHR ''g'' = CHR ''G''" "upperChar CHR ''h'' = CHR ''H''" "upperChar CHR ''i'' = CHR ''I''"
  "upperChar CHR ''j'' = CHR ''J''" "upperChar CHR ''k'' = CHR ''K''" "upperChar CHR ''l'' = CHR ''L''"
  "upperChar CHR ''m'' = CHR ''M''" "upperChar CHR ''n'' = CHR ''N''" "upperChar CHR ''o'' = CHR ''O''"
  "upperChar CHR ''p'' = CHR ''P''" "upperChar CHR ''q'' = CHR ''Q''" "upperChar CHR ''r'' = CHR ''R''"
  "upperChar CHR ''s'' = CHR ''S''" "upperChar CHR ''t'' = CHR ''T''" "upperChar CHR ''u'' = CHR ''U''"
  "upperChar CHR ''v'' = CHR ''V''" "upperChar CHR ''w'' = CHR ''W''" "upperChar CHR ''x'' = CHR ''X''"
  "upperChar CHR ''y'' = CHR ''Y''" "upperChar CHR ''z'' = CHR ''Z''"
  by code_simp+

lemma upperChar_fix:
  "\<not> (97 \<le> (of_char d :: nat) \<and> (of_char d :: nat) \<le> 122) \<Longrightarrow> upperChar d = d"
  by (auto simp: upperChar_def)

lemmas string_defs = trim_def toUpperCase_def upperChar_lower upperChar_fix isWhiteSpace_def isUpper_def
  isLower_def isDigit_def Times_numeral Plus_def Opt_def

lemmas validation_defs = validate_def validateCode_def validateIso_def validateName_def
  validateTimezone_def validateMobileRegex_def validateFlag_def isoRegex_def timezoneRegex_def
  regexRefPattern_def invalid_required_def invalid_optional_def cleanData_def clean_def

lemmas orm_defs = getModel_def findOne_def insertOne_def updateOne_def deleteOne_def apply_data_def
  constraint_error_def too_long_def List.map_filter_def set_model_def nullable_of_def
  notNull_error_def guidGenerator_def max_col_def

lemmas model_defs = country_table_def find_by_id_def findByCode_def findByIso_def findByGuid_def
  create_def update_def updateData_def trash_def save_def isNew_def delete_def load_def
  hydrate_def field_of_def toJSON_def props_def json_of_field_def new_Country_def setCode_def
  setIso_def setName_def setTimezone_def setMobileRegex_def setFlag_def quote_def toString_def

lemmas route_defs = post_country_def put_country_def delete_country_def get_country_def
  country_of_body_def apply_body_def falsy_str_def save_error_response_def found_or_404_def
  search_failed_def handleError_def handleSuccess_def handleCreated_def code_message_def
  SUCCESS_def CREATED_def BAD_REQUEST_def NOT_FOUND_def CONFLICT_def INTERNAL_ERROR_def
  parseInt_def digitsValue_def

lemmas example_defs = cameroon_def example_db_def example_body_def example_time_def


section \<open>Properties of the country model\<close>











section \<open>Properties of the country routes\<close>



lemma findOne_registered:
  "getModel ti t = Inr rows \<Longrightarrow> findOne ti t P = Inr (List.find P rows)"
  by (simp add: findOne_def)

lemma find_None: "(\<forall>r\<in>set rows. \<not> P r) \<Longrightarrow> List.find P rows = None"
  by (simp add: find_None_iff)















lemma load_by_iso_none:
  assumes "getModel (tables db) country_table = Inr rows" and "\<forall>r\<in>set rows. col_iso r \<noteq> toUpperCase s"
  shows "load db (Str s) False False True = Inr None"
proof -
  have "List.find (\<lambda>r. col_iso r = toUpperCase s) rows = None"
    using assms(2) by (simp add: find_None_iff)
  then show ?thesis
    by (simp add: load_def findByIso_def findOne_registered [OF assms(1)])
qed








section \<open>Properties of the responses\<close>

lemmas http_codes = SUCCESS_def CREATED_def BAD_REQUEST_def NOT_FOUND_def CONFLICT_def INTERNAL_ERROR_def

lemma envelope_handleSuccess:
  "envelope (handleSuccess structure SUCCESS)" "envelope (handleCreated structure)"
  by (simp_all add: envelope_def success_envelope_def handleSuccess_def handleCreated_def http_codes)

lemma envelope_handleError:
  "envelope (handleError now BAD_REQUEST (code_message c m))"
  "envelope (handleError now NOT_FOUND (code_message c m))"
  "envelope (handleError now CONFLICT (code_message c m))"
  "envelope (handleError now INTERNAL_ERROR (code_message c m))"
  by (simp_all add: envelope_def error_envelope_def handleError_def code_message_def is_string_def
      http_codes)

lemma envelope_save_error_response: "envelope (save_error_response now fb msg)"
  by (simp add: save_error_response_def envelope_handleError)

lemma envelope_found_or_404: "envelope (found_or_404 now msg c)"
  by (simp add: found_or_404_def envelope_handleError envelope_handleSuccess split: option.splits)

lemma envelope_search_failed: "envelope (search_failed now msg)"
  by (simp add: search_failed_def envelope_handleError)

lemmas envelope_simps = envelope_handleSuccess envelope_handleError envelope_save_error_response
  envelope_found_or_404 envelope_search_failed

lemma envelope_post: "envelope (fst (post_country now db reqBody))"
  by (simp add: post_country_def envelope_simps split: field.splits prod.splits sum.splits)

lemma envelope_put: "envelope (fst (put_country now db g reqBody))"
  by (simp add: put_country_def envelope_simps split: option.splits prod.splits sum.splits)

lemma envelope_delete: "envelope (fst (delete_country now db g))"
  by (simp add: delete_country_def envelope_simps savedError_def
      split: option.splits prod.splits sum.splits)

lemma envelope_get: "envelope (get_country now db i)"
  by (simp add: get_country_def Let_def envelope_simps split: option.splits sum.splits)

lemma envelope_search_iso: "envelope (get_search_iso now db i)"
  by (simp add: get_search_iso_def envelope_simps split: option.splits sum.splits)

lemma envelope_search_code: "envelope (get_search_code now db i)"
  by (simp add: get_search_code_def envelope_simps split: option.splits sum.splits)

lemma envelope_list: "envelope (get_list now db q)"
  by (simp add: get_list_def Let_def envelope_simps split: option.splits sum.splits)


text \<open>
  C3. As stated (every envelope has a timestamp) the claim fails on every successful
  response: the body of a found country holds \<^verbatim>\<open>success\<close> and \<^verbatim>\<open>data\<close> only.
\<close>

theorem C3_success_without_timestamp_counterexample:
  "body (get_country example_time example_db ''237'')
     = Some (JObj [(''success'', JBool True),
                   (''data'', JObj [(''guid'', JNum 100003), (''code'', JNum 237),
                                    (''iso'', JStr ''CM''), (''name'', JStr ''Cameroon''),
                                    (''timezone'', JStr ''Africa/Douala''),
                                    (''mobileRegex'', JNull), (''flag'', JNull)])])"
  by (simp add: route_defs model_defs orm_defs validation_defs string_defs example_defs)

text \<open>
  C3 (amended). A response sent through \<^verbatim>\<open>R.handleSuccess\<close> is the envelope
  \<^verbatim>\<open>{ success: true, data }\<close>, without a timestamp; a response sent through
  \<^verbatim>\<open>R.handleError\<close> with a \<^verbatim>\<open>{ code, message }\<close> error is the envelope
  \<^verbatim>\<open>{ success: false, error: { code, message }, timestamp }\<close>; and every response of the
  country routes (POST, PUT, DELETE, the three lookups and the list) is one of the two.
\<close>

theorem C3_response_envelopes:
  "success_envelope (handleSuccess structure httpCode)
   \<and> error_envelope (handleError now httpCode (code_message c m))
   \<and> envelope (fst (post_country now db reqBody))
   \<and> envelope (fst (put_country now db guid_param reqBody))
   \<and> envelope (fst (delete_country now db guid_param))
   \<and> envelope (get_country now db identifier)
   \<and> envelope (get_search_iso now db iso_param)
   \<and> envelope (get_search_code now db code_param)
   \<and> envelope (get_list now db q)"
proof -
  have "success_envelope (handleSuccess structure httpCode)"
    by (simp add: success_envelope_def handleSuccess_def)
  moreover have "error_envelope (handleError now httpCode (code_message c m))"
    by (simp add: error_envelope_def handleError_def code_message_def is_string_def)
  ultimately show ?thesis
    by (simp add: envelope_post envelope_put envelope_delete envelope_get envelope_search_iso
        envelope_search_code envelope_list)
qed

section \<open>Properties of the adjustment validator\<close>

lemma total_check_gated:
  "\<not> truthy (subtotal_usd data) \<or> \<not> truthy (tax_amount_usd data)
     \<or> \<not> truthy (total_amount_usd data) \<Longrightarrow> total_check fl data = []"
  by (auto simp: total_check_def)

lemma subtotal_check_gated:
  "\<not> truthy (employees_added_count data) \<or> \<not> truthy (months_remaining data)
     \<or> \<not> truthy (price_per_employee_usd data) \<or> \<not> truthy (subtotal_usd data)
   \<Longrightarrow> subtotal_check fl data = []"
  by (auto simp: subtotal_check_def)

lemma local_check_gated:
  "\<not> truthy (exchange_rate_used data) \<or> \<not> truthy (subtotal_usd data)
     \<or> \<not> truthy (tax_amount_usd data) \<or> \<not> truthy (total_amount_usd data)
     \<or> \<not> truthy (subtotal_local data) \<or> \<not> truthy (tax_amount_local data)
     \<or> \<not> truthy (total_amount_local data)
   \<Longrightarrow> local_check fl data = []"
  by (auto simp: local_check_def)

text \<open>
  C9. \<^verbatim>\<open>validateAdjustmentModel\<close> runs a reconciliation check only when every field
  taking part in it is truthy: whatever the rounding of the arithmetic, an amount that is
  0 switches off each check it takes part in, and for the input with
  \<^verbatim>\<open>subtotal_usd = 100\<close>, \<^verbatim>\<open>tax_amount_usd = 0\<close> and \<^verbatim>\<open>total_amount_usd = 200\<close>,
  where subtotal plus tax differs from the total by more than 0.01, the validator returns
  \<^verbatim>\<open>isValid = true\<close> with no errors.
\<close>

theorem C9_zero_amount_skips_reconciliation:
  "(tax_amount_usd data = Some 0
      \<longrightarrow> total_check fl data = [] \<and> local_check fl data = [])
   \<and> tax_amount_usd example_adjustment = Some 0
   \<and> \<bar>number (subtotal_usd example_adjustment) + number (tax_amount_usd example_adjustment)
        - number (total_amount_usd example_adjustment)\<bar> > 1 / 100
   \<and> validateAdjustmentModel fl example_adjustment = \<lparr>isValid = True, errors = []\<rparr>"
proof -
  have "total_check fl data = [] \<and> local_check fl data = []" if "tax_amount_usd data = Some 0"
  proof -
    have "\<not> truthy (tax_amount_usd data)"
      using that by (simp add: truthy_def)
    then show ?thesis
      by (simp add: total_check_gated local_check_gated)
  qed
  moreover have "validateAdjustmentModel fl example_adjustment = \<lparr>isValid = True, errors = []\<rparr>"
    by (simp add: validateAdjustmentModel_def subtotal_check_def total_check_def local_check_def
        payment_before_def truthy_def example_adjustment_def)
  ultimately show ?thesis
    by (simp add: example_adjustment_def number_def)
qed

theorem C9_zero_amount_skips_reconciliation_witness:
  "tax_amount_usd example_adjustment = Some 0
   \<and> total_check (\<lambda>x. x) example_adjustment = []
   \<and> local_check (\<lambda>x. x) example_adjustment = []
   \<and> validateAdjustmentModel (\<lambda>x. x) example_adjustment = \<lparr>isValid = True, errors = []\<rparr>"
proof -
  have z: "tax_amount_usd example_adjustment = Some 0"
    by (simp add: example_adjustment_def)
  show ?thesis
    using C9_zero_amount_skips_reconciliation [of example_adjustment "\<lambda>x. x"] z by blast
qed

end
